theory Spec2Isabelle
  imports Complex_Main "HOL-Library.Word"
begin

unbundle bit_operations_syntax

section \<open>Python values used by the spectrum analyzer server\<close>

text \<open>
  The server in \<^verbatim>\<open>spectrum_analyzer.py\<close> is Python 2 code: \<^verbatim>\<open>d/4\<close> on two
  integers is floor division and the instrument's response is a byte string. A byte
  string is modelled as \<^typ>\<open>string\<close> (a list of 8-bit characters), a Python
  integer as \<^typ>\<open>int\<close>, and a Python float as \<^typ>\<open>real\<close>: the division
  \<^verbatim>\<open>v/1000.0\<close> is the exact quotient, so the rounding of a double is abstracted.

  Every exception the modelled code can raise is a value of \<open>error\<close>.
\<close>

datatype error =
    IndexError
  | ValueError
  | StructError
  | ZeroDivisionError
  | AttributeError
  | HandlerError string
  | PyException string
  | DeviceError string

subsection \<open>Indexing and slicing\<close>

text \<open>\<^verbatim>\<open>s[i]\<close>: a negative index counts from the end; out of range raises.\<close>

definition py_index :: "string \<Rightarrow> int \<Rightarrow> error + char" where
  "py_index s i =
     (if 0 \<le> i \<and> i < int (length s) then Inr (s ! nat i)
      else if i < 0 \<and> - int (length s) \<le> i then Inr (s ! nat (int (length s) + i))
      else Inl IndexError)"

text \<open>A slice bound is clamped into \<open>0..len(s)\<close>; a slice never raises.\<close>

definition slice_bound :: "nat \<Rightarrow> int \<Rightarrow> nat" where
  "slice_bound n i = (if i < 0 then nat (int n + i) else min n (nat i))"

text \<open>\<^verbatim>\<open>s[i:j]\<close> and \<^verbatim>\<open>s[i:]\<close>.\<close>

definition py_slice :: "string \<Rightarrow> int \<Rightarrow> int \<Rightarrow> string" where
  "py_slice s i j =
     (let a = slice_bound (length s) i; b = slice_bound (length s) j
      in take (b - a) (drop a s))"

definition py_slice_from :: "string \<Rightarrow> int \<Rightarrow> string" where
  "py_slice_from s i = drop (slice_bound (length s) i) s"

subsection \<open>The built-in \<^verbatim>\<open>int\<close> on a byte string\<close>

text \<open>
  \<^verbatim>\<open>int(s)\<close> in base 10: surrounding white space is dropped, one sign is allowed,
  and what remains must be one or more ASCII digits; anything else raises
  \<^verbatim>\<open>ValueError\<close> (\<open>None\<close> here).
\<close>

definition isspace :: "char \<Rightarrow> bool" where
  "isspace c =
     (c = CHR 0x20 \<or> c = CHR 0x09 \<or> c = CHR 0x0A \<or> c = CHR 0x0B \<or> c = CHR 0x0C \<or> c = CHR 0x0D)"

definition isdigit :: "char \<Rightarrow> bool" where
  "isdigit c = (48 \<le> (of_char c :: nat) \<and> (of_char c :: nat) \<le> 57)"

definition digit_val :: "char \<Rightarrow> nat" where
  "digit_val c = of_char c - 48"

definition digits_val :: "string \<Rightarrow> nat" where
  "digits_val ds = foldl (\<lambda>a c. 10 * a + digit_val c) 0 ds"

definition strip :: "string \<Rightarrow> string" where
  "strip s = rev (dropWhile isspace (rev (dropWhile isspace s)))"

definition py_int :: "string \<Rightarrow> int option" where
  "py_int s =
     (let t = strip s;
          neg = (case t of [] \<Rightarrow> False | c # r \<Rightarrow> c = CHR ''-'');
          ds = (case t of [] \<Rightarrow> [] | c # r \<Rightarrow> if c = CHR ''-'' \<or> c = CHR ''+'' then r else t)
      in if ds \<noteq> [] \<and> list_all isdigit ds
         then Some (if neg then - int (digits_val ds) else int (digits_val ds))
         else None)"

subsection \<open>\<^verbatim>\<open>struct.unpack\<close> with the format \<^verbatim>\<open>'>' + 'l'*n\<close>\<close>

text \<open>
  \<^verbatim>\<open>'>l'\<close> reads four bytes, most significant first, as a two's-complement 32-bit
  integer. \<^verbatim>\<open>'l'*n\<close> is the empty string for \<open>n \<le> 0\<close>. \<^verbatim>\<open>unpack\<close> raises
  \<^verbatim>\<open>struct.error\<close> unless the string has exactly the size of the format.
\<close>

definition be_int32 :: "char \<Rightarrow> char \<Rightarrow> char \<Rightarrow> char \<Rightarrow> int" where
  "be_int32 b0 b1 b2 b3 =
     sint (push_bit 24 (of_char b0) OR push_bit 16 (of_char b1) OR
           push_bit 8 (of_char b2) OR of_char b3 :: 32 word)"

fun unpack_l :: "string \<Rightarrow> int list" where
  "unpack_l (b0 # b1 # b2 # b3 # rest) = be_int32 b0 b1 b2 b3 # unpack_l rest"
| "unpack_l _ = []"

definition unpack_be_l :: "int \<Rightarrow> string \<Rightarrow> error + int list" where
  "unpack_be_l n s =
     (if length s = 4 * nat n then Inr (unpack_l s) else Inl StructError)"

section \<open>The block decoder\<close>

subsection \<open>The decode error of the LabRAD library\<close>

text \<open>
  The server imports \<^verbatim>\<open>errors\<close> from the LabRAD library (\<^verbatim>\<open>from labrad import
  types as T, errors\<close>); the module is not part of this repository. The decoder uses
  one name of it, in \<^verbatim>\<open>raise errors.HandlerError('...')\<close>. Whether the module defines
  that name is a parameter of the model, \<open>has_HandlerError\<close>. Where it does, the
  statement raises that exception with its message. Where it does not, looking the
  attribute up raises \<^verbatim>\<open>AttributeError\<close> and the statement raises nothing else.
  The general theorems below hold for both values of the parameter. The concrete inputs
  are evaluated with \<open>False\<close>; only an input that reaches the \<^verbatim>\<open>raise\<close> depends
  on the choice.
\<close>

definition raise_HandlerError :: "bool \<Rightarrow> string \<Rightarrow> error" where
  "raise_HandlerError has_HandlerError msg =
     (if has_HandlerError then HandlerError msg else AttributeError)"

subsection \<open>\<^verbatim>\<open>_parseBinaryData\<close>\<close>

text \<open>
  \<^verbatim>\<open>
  def _parseBinaryData(data):
      h = int(data[1])
      d = int(data[2:2+h])
      s = data[2+h:]
      if len(s) != d:
          raise errors.HandlerError('Could not decode binary response.')
      n = d/4 # 4 bytes per data point
      data = unpack('>'+'l'*n, s)
      data = [d/1000.0 for d in data]
      return data
  \<close>
\<close>

definition parseBinaryData :: "bool \<Rightarrow> string \<Rightarrow> error + real list" where
  "parseBinaryData has_HandlerError data =
     (case py_index data 1 of
        Inl e \<Rightarrow> Inl e
      | Inr c \<Rightarrow>
          (case py_int [c] of
             None \<Rightarrow> Inl ValueError
           | Some h \<Rightarrow>
               (case py_int (py_slice data 2 (2 + h)) of
                  None \<Rightarrow> Inl ValueError
                | Some d \<Rightarrow>
                    (let s = py_slice_from data (2 + h)
                     in if int (length s) \<noteq> d
                        then Inl (raise_HandlerError has_HandlerError
                                    ''Could not decode binary response.'')
                        else (let n = d div 4
                              in case unpack_be_l n s of
                                   Inl e \<Rightarrow> Inl e
                                 | Inr vs \<Rightarrow> Inr (map (\<lambda>v. real_of_int v / 1000) vs))))))"

section \<open>The trace fetcher\<close>

subsection \<open>The instrument collaborator\<close>

text \<open>
  \<^verbatim>\<open>dev.query(cmd)\<close> sends a command to the instrument and returns its reply, or
  raises. The instrument is deterministic in the commands it has received, so it is a
  function from the commands sent so far (the last one being the current query) to a
  reply or an error, and the state threaded through the server is the list of commands
  sent: instrument I/O happened exactly when that list has grown.
\<close>

type_synonym instrument = "string list \<Rightarrow> error + string"

definition query :: "instrument \<Rightarrow> string \<Rightarrow> string list \<Rightarrow> (error + string) \<times> string list" where
  "query dev cmd sent = (dev (sent @ [cmd]), sent @ [cmd])"

subsection \<open>The query text\<close>

text \<open>
  \<^verbatim>\<open>
  __QUERY__ = ":FORM INT,32", newline, ":FORM:BORD NORM", newline, ":TRAC? TRACE%s"
  \<close>
  \<^verbatim>\<open>__QUERY__ % trace\<close> puts the decimal text of the trace number in place of
  \<^verbatim>\<open>%s\<close>.
\<close>

fun str_nat :: "nat \<Rightarrow> string" where
  "str_nat n =
     (if n < 10 then [char_of (48 + n)]
      else str_nat (n div 10) @ [char_of (48 + n mod 10)])"

definition str_int :: "int \<Rightarrow> string" where
  "str_int i = (if i < 0 then CHR ''-'' # str_nat (nat (- i)) else str_nat (nat i))"

definition QUERY :: "string \<Rightarrow> string" where
  "QUERY t =
     '':FORM INT,32'' @ [CHR 0x0A] @ '':FORM:BORD NORM'' @ [CHR 0x0A] @ '':TRAC? TRACE'' @ t"

subsection \<open>\<^verbatim>\<open>get_trace\<close>\<close>

text \<open>
  \<^verbatim>\<open>
  def get_trace(self, c, data=1):
      dev = self.selectedDevice(c)
      if data < 1 or data > 3:
          raise Exception('data out of range')
      trace = data
      start = float((yield dev.query(':FREQ:STAR?')))
      span = float((yield dev.query(':FREQ:SPAN?')))
      resp = yield dev.query(__QUERY__ % trace)
      vals = _parseBinaryData(resp)
      n = len(vals)
      returnValue((start/1.0e6, span/1.0e6/(n-1), vals))
  \<close>
  \<^verbatim>\<open>selectedDevice\<close> belongs to the server framework; it looks the device up in the
  request context and talks to no instrument, so the model starts from the device it
  returns. The built-in \<^verbatim>\<open>float\<close> is the parameter \<open>to_float\<close> (\<open>None\<close> where
  it raises \<^verbatim>\<open>ValueError\<close>). A float divided by the integer zero raises
  \<^verbatim>\<open>ZeroDivisionError\<close>. The result is the returned triple, or the error, together
  with the commands sent.
\<close>

definition get_trace ::
  "(string \<Rightarrow> real option) \<Rightarrow> bool \<Rightarrow> instrument \<Rightarrow> int \<Rightarrow> string list \<Rightarrow>
     (error + real \<times> real \<times> real list) \<times> string list" where
  "get_trace to_float has_HandlerError dev data sent =
     (if data < 1 \<or> data > 3 then (Inl (PyException ''data out of range''), sent)
      else
        (case query dev '':FREQ:STAR?'' sent of
           (Inl e, sent1) \<Rightarrow> (Inl e, sent1)
         | (Inr r1, sent1) \<Rightarrow>
             (case to_float r1 of
                None \<Rightarrow> (Inl ValueError, sent1)
              | Some start_hz \<Rightarrow>
                  (case query dev '':FREQ:SPAN?'' sent1 of
                     (Inl e, sent2) \<Rightarrow> (Inl e, sent2)
                   | (Inr r2, sent2) \<Rightarrow>
                       (case to_float r2 of
                          None \<Rightarrow> (Inl ValueError, sent2)
                        | Some span_hz \<Rightarrow>
                            (case query dev (QUERY (str_int data)) sent2 of
                               (Inl e, sent3) \<Rightarrow> (Inl e, sent3)
                             | (Inr resp, sent3) \<Rightarrow>
                                 (case parseBinaryData has_HandlerError resp of
                                    Inl e \<Rightarrow> (Inl e, sent3)
                                  | Inr vals \<Rightarrow>
                                      (let n = int (length vals)
                                       in if n - 1 = 0 then (Inl ZeroDivisionError, sent3)
                                          else (Inr (start_hz / 1000000,
                                                     span_hz / 1000000 / real_of_int (n - 1),
                                                     vals), sent3)))))))))"

subsection \<open>A scripted instrument for the concrete scenarios\<close>

text \<open>
  The scenarios of the specification fix the three replies of the instrument. The
  scripted instrument answers the start-frequency query, the span query and any other
  command with the three given strings; \<open>mock_float\<close> reads the two numerals the
  scenarios use.
\<close>

definition mock_instrument :: "string \<Rightarrow> string \<Rightarrow> string \<Rightarrow> instrument" where
  "mock_instrument start_reply span_reply block sent =
     (if sent = [] then Inl (DeviceError ''no command'')
      else if last sent = '':FREQ:STAR?'' then Inr start_reply
      else if last sent = '':FREQ:SPAN?'' then Inr span_reply
      else Inr block)"

definition mock_float :: "string \<Rightarrow> real option" where
  "mock_float s =
     (if s = ''1000000000'' then Some 1000000000
      else if s = ''100000000'' then Some 100000000
      else None)"

text \<open>
  A trace of five samples: the header \<^verbatim>\<open>#220\<close> and the big-endian integers
  1000, 2000, 3000, -1000 and 0.
\<close>

definition five_sample_block :: string where
  "five_sample_block = ''#220'' @
     [CHR 0x00, CHR 0x00, CHR 0x03, CHR 0xE8,
      CHR 0x00, CHR 0x00, CHR 0x07, CHR 0xD0,
      CHR 0x00, CHR 0x00, CHR 0x0B, CHR 0xB8,
      CHR 0xFF, CHR 0xFF, CHR 0xFC, CHR 0x18,
      CHR 0x00, CHR 0x00, CHR 0x00, CHR 0x00]"

section \<open>The wire format in the specification's words\<close>

text \<open>
  The specification describes sample \<open>i\<close> as the big-endian two's-complement signed
  32-bit integer read from payload bytes \<open>4i..4i+3\<close>: the unsigned value of the four
  bytes, most significant first, minus \<open>2^32\<close> when its top bit is set. This
  definition follows those words; \<open>be_int32\<close> above is the decoder's.
\<close>

definition spec_be_int32 :: "string \<Rightarrow> nat \<Rightarrow> int" where
  "spec_be_int32 payload i =
     (let u = 2 ^ 24 * int (of_char (payload ! (4 * i))) +
              2 ^ 16 * int (of_char (payload ! (4 * i + 1))) +
              2 ^ 8 * int (of_char (payload ! (4 * i + 2))) +
              int (of_char (payload ! (4 * i + 3)))
      in if u < 2 ^ 31 then u else u - 2 ^ 32)"

section \<open>Facts about the built-ins\<close>

lemma isdigit_not_space: "isdigit c \<Longrightarrow> \<not> isspace c"
  by (auto simp: isspace_def isdigit_def)

lemma isdigit_not_sign: "isdigit c \<Longrightarrow> c \<noteq> CHR ''-'' \<and> c \<noteq> CHR ''+''"
  by (auto simp: isdigit_def)

lemma isspace_not_sign: "isspace c \<Longrightarrow> c \<noteq> CHR ''-'' \<and> c \<noteq> CHR ''+''"
  by (auto simp: isspace_def)

lemma digit_val_le: "isdigit c \<Longrightarrow> digit_val c \<le> 9"
  by (auto simp: isdigit_def digit_val_def)

lemma py_int_single:
  "py_int [c] = (if isdigit c then Some (int (digit_val c)) else None)"
proof (cases "isspace c")
  case True
  then have "\<not> isdigit c" using isdigit_not_space by blast
  with True show ?thesis by (simp add: py_int_def strip_def)
next
  case False
  then have s: "strip [c] = [c]" by (simp add: strip_def)
  show ?thesis
  proof (cases "c = CHR ''-'' \<or> c = CHR ''+''")
    case True
    then have "\<not> isdigit c" using isdigit_not_sign by blast
    with True show ?thesis by (auto simp add: py_int_def s Let_def)
  next
    case False
    then show ?thesis by (simp add: py_int_def s Let_def digits_val_def)
  qed
qed

lemma strip_digits:
  assumes "ds \<noteq> []" "list_all isdigit ds"
  shows "strip ds = ds"
proof -
  from assms have h: "\<not> isspace (hd ds)"
    by (cases ds) (auto dest: isdigit_not_space)
  from assms have l: "\<not> isspace (last ds)"
    using isdigit_not_space by (metis last_in_set list_all_iff)
  from h assms(1) have 1: "dropWhile isspace ds = ds"
    by (cases ds) auto
  from l assms(1) have 2: "dropWhile isspace (rev ds) = rev ds"
    by (cases "rev ds") (auto simp: last_rev hd_rev)
  show ?thesis by (simp add: strip_def 1 2)
qed

lemma py_int_digits:
  assumes "ds \<noteq> []" "list_all isdigit ds"
  shows "py_int ds = Some (int (digits_val ds))"
proof -
  obtain c r where ds: "ds = c # r" using assms(1) by (cases ds) auto
  with assms(2) have "isdigit c" by simp
  then have "c \<noteq> CHR ''-''" "c \<noteq> CHR ''+''" using isdigit_not_sign by blast+
  then show ?thesis
    using assms by (simp add: py_int_def strip_digits Let_def ds)
qed

lemma py_index_1: "py_index (m # c # rest) 1 = Inr c"
  by (simp add: py_index_def)

lemma py_index_short: "length data < 2 \<Longrightarrow> py_index data 1 = Inl IndexError"
  by (simp add: py_index_def)

lemma py_slice_header:
  "py_slice (m # c # rest) 2 (2 + int h) = take h rest"
  by (auto simp add: py_slice_def slice_bound_def Let_def min_def nat_add_distrib)

lemma py_slice_from_header:
  "py_slice_from (m # c # rest) (2 + int h) = drop h rest"
  by (auto simp add: py_slice_from_def slice_bound_def min_def nat_add_distrib)

section \<open>The two readings of a 32-bit sample agree\<close>

lemma bit_of_char_word: "bit (of_char c :: 32 word) n \<Longrightarrow> n < 8"
proof -
  assume b: "bit (of_char c :: 32 word) n"
  have "(of_char c :: nat) = take_bit 8 (of_char c :: nat)"
    by (simp add: take_bit_eq_mod)
  then have "bit (of_char c :: nat) n \<Longrightarrow> n < 8"
    by (metis bit_take_bit_iff)
  moreover have "(of_char c :: 32 word) = word_of_nat (of_char c)"
    by (simp only: of_nat_of_char)
  ultimately show "n < 8" using b by (simp add: bit_of_nat_iff)
qed

lemma push_or_byte:
  "push_bit 8 (x :: 32 word) OR of_char c = push_bit 8 x + of_char c"
  by (rule disjunctive_add [symmetric]) (auto simp: bit_push_bit_iff dest: bit_of_char_word)

lemma or_push_bytes:
  "push_bit 24 (of_char b0) OR push_bit 16 (of_char b1) OR push_bit 8 (of_char b2) OR of_char b3
   = (push_bit 8 (push_bit 8 (push_bit 8 (of_char b0) OR of_char b1) OR of_char b2) OR of_char b3 :: 32 word)"
  by (simp add: push_bit_or or.assoc)

lemma word_of_bytes:
  "(push_bit 24 (of_char b0) OR push_bit 16 (of_char b1) OR push_bit 8 (of_char b2) OR of_char b3 :: 32 word)
   = word_of_int (2 ^ 24 * int (of_char b0) + 2 ^ 16 * int (of_char b1) + 2 ^ 8 * int (of_char b2) + int (of_char b3))"
proof -
  have "(push_bit 24 (of_char b0) OR push_bit 16 (of_char b1) OR push_bit 8 (of_char b2) OR of_char b3 :: 32 word)
    = push_bit 8 (push_bit 8 (push_bit 8 (of_char b0) OR of_char b1) OR of_char b2) OR of_char b3"
    by (rule or_push_bytes)
  also have "\<dots> = push_bit 8 (push_bit 8 (push_bit 8 (of_char b0) + of_char b1) + of_char b2) + of_char b3"
    by (simp only: push_or_byte)
  also have "\<dots> = word_of_int (2 ^ 24 * int (of_char b0) + 2 ^ 16 * int (of_char b1) + 2 ^ 8 * int (of_char b2) + int (of_char b3))"
    by (simp add: push_bit_eq_mult of_nat_of_char of_int_of_char algebra_simps)
  finally show ?thesis .
qed

lemma be_int32_arith:
  "be_int32 b0 b1 b2 b3 =
     (let u = 2 ^ 24 * int (of_char b0) + 2 ^ 16 * int (of_char b1) +
              2 ^ 8 * int (of_char b2) + int (of_char b3)
      in if u < 2 ^ 31 then u else u - 2 ^ 32)"
proof -
  define u where "u = 2 ^ 24 * int (of_char b0) + 2 ^ 16 * int (of_char b1) +
              2 ^ 8 * int (of_char b2) + int (of_char b3)"
  have b: "\<And>c. int (of_char c) < 256" "\<And>c. 0 \<le> int (of_char c)"
    by simp_all
  have lo: "0 \<le> u" unfolding u_def by simp
  have p: "(2::int) ^ 24 = 16777216" "(2::int) ^ 16 = 65536" "(2::int) ^ 8 = 256"
    "(2::int) ^ 32 = 4294967296"
    by simp_all
  have hi: "u < 2 ^ 32"
    unfolding u_def p using b(1)[of b0] b(1)[of b1] b(1)[of b2] b(1)[of b3] by linarith
  have "be_int32 b0 b1 b2 b3 = sint (word_of_int u :: 32 word)"
    unfolding be_int32_def word_of_bytes u_def ..
  also have "\<dots> = (u + 2 ^ 31) mod 2 ^ 32 - 2 ^ 31"
    by (simp add: int_word_sint)
  also have "\<dots> = (if u < 2 ^ 31 then u else u - 2 ^ 32)"
  proof (cases "u < 2 ^ 31")
    case True
    with lo have "(u + 2 ^ 31) mod 2 ^ 32 = u + 2 ^ 31" by (simp add: mod_pos_pos_trivial)
    with True show ?thesis by simp
  next
    case False
    with hi have "(u + 2 ^ 31) mod 2 ^ 32 = u + 2 ^ 31 - 2 ^ 32"
      by (simp add: mod_pos_geq mod_pos_pos_trivial)
    with False show ?thesis by simp
  qed
  finally show ?thesis by (simp add: u_def Let_def)
qed

lemma length_unpack_l: "length (unpack_l s) = length s div 4"
  by (induction s rule: unpack_l.induct) simp_all

lemma nth_unpack_l:
  "i < length s div 4 \<Longrightarrow>
   unpack_l s ! i = be_int32 (s ! (4 * i)) (s ! (4 * i + 1)) (s ! (4 * i + 2)) (s ! (4 * i + 3))"
proof (induction s arbitrary: i rule: unpack_l.induct)
  case (1 b0 b1 b2 b3 rest)
  show ?case
  proof (cases i)
    case 0
    then show ?thesis by simp
  next
    case (Suc j)
    with "1.prems" have "j < length rest div 4" by simp
    from "1.IH" [OF this] Suc show ?thesis by (simp add: algebra_simps)
  qed
qed simp_all

lemma unpack_l_spec:
  "unpack_l s = map (spec_be_int32 s) [0..<length s div 4]"
  by (rule nth_equalityI)
     (simp_all add: length_unpack_l nth_unpack_l be_int32_arith spec_be_int32_def)

section \<open>The decoder on a framed block\<close>

text \<open>
  An input of at least two bytes is \<open>m # hc # rest\<close>: the marker, the header-length
  character and what follows. The decoder reads the first \<open>digit_val hc\<close> characters
  of \<open>rest\<close> as the declared length and takes the remainder as the payload.
\<close>

lemma parseBinaryData_Cons:
  "parseBinaryData lib (m # c # rest) =
     (if isdigit c then
        (case py_int (take (digit_val c) rest) of
           None \<Rightarrow> Inl ValueError
         | Some d \<Rightarrow>
             (if int (length (drop (digit_val c) rest)) \<noteq> d
              then Inl (raise_HandlerError lib ''Could not decode binary response.'')
              else (case unpack_be_l (d div 4) (drop (digit_val c) rest) of
                      Inl e \<Rightarrow> Inl e
                    | Inr vs \<Rightarrow> Inr (map (\<lambda>v. real_of_int v / 1000) vs))))
      else Inl ValueError)"
  by (simp add: parseBinaryData_def py_index_1 py_int_single py_slice_header
      py_slice_from_header Let_def split: option.split)

lemma parseBinaryData_short:
  "length data < 2 \<Longrightarrow> parseBinaryData lib data = Inl IndexError"
  by (simp add: parseBinaryData_def py_index_short)

lemma parse_framed:
  assumes "isdigit hc" and "take (digit_val hc) rest \<noteq> []"
    and "list_all isdigit (take (digit_val hc) rest)"
  shows "parseBinaryData lib (m # hc # rest) =
     (if length (drop (digit_val hc) rest) \<noteq> digits_val (take (digit_val hc) rest)
      then Inl (raise_HandlerError lib ''Could not decode binary response.'')
      else if digits_val (take (digit_val hc) rest) mod 4 \<noteq> 0 then Inl StructError
      else Inr (map (\<lambda>i. real_of_int (spec_be_int32 (drop (digit_val hc) rest) i) / 1000)
                    [0..<digits_val (take (digit_val hc) rest) div 4]))"
proof -
  let ?ds = "take (digit_val hc) rest"
  let ?s = "drop (digit_val hc) rest"
  have d: "py_int ?ds = Some (int (digits_val ?ds))"
    using assms(2,3) by (rule py_int_digits)
  show ?thesis
  proof (cases "length ?s = digits_val ?ds")
    case False
    then show ?thesis using assms(1) by (simp add: parseBinaryData_Cons d)
  next
    case True
    have n: "nat (int (digits_val ?ds) div 4) = digits_val ?ds div 4"
      by (simp add: nat_div_distrib)
    show ?thesis
    proof (cases "digits_val ?ds mod 4 = 0")
      case False
      then have "length ?s \<noteq> 4 * (digits_val ?ds div 4)"
        using True by presburger
      then show ?thesis using assms(1) True False
        by (simp add: parseBinaryData_Cons d unpack_be_l_def n del: length_drop)
    next
      case z: True
      then have "length ?s = 4 * (digits_val ?ds div 4)"
        using True by presburger
      moreover have "map (\<lambda>v. real_of_int v / 1000) (unpack_l ?s) =
         map (\<lambda>i. real_of_int (spec_be_int32 ?s i) / 1000) [0..<digits_val ?ds div 4]"
        using True by (simp add: unpack_l_spec comp_def del: length_drop)
      ultimately show ?thesis using assms(1) True z
        by (simp add: parseBinaryData_Cons d unpack_be_l_def n del: length_drop)
    qed
  qed
qed

text \<open>
  Every framed block whose payload does not have the declared length ends at the
  \<^verbatim>\<open>raise\<close> of the decoder, whatever the library provides there.
\<close>

lemma length_mismatch_raise:
  assumes "isdigit hc"
    and "ds = take (digit_val hc) rest" and "payload = drop (digit_val hc) rest"
    and "ds \<noteq> []" and "list_all isdigit ds"
    and "length payload \<noteq> digits_val ds"
  shows "parseBinaryData lib (m # hc # rest) =
           Inl (raise_HandlerError lib ''Could not decode binary response.'')"
  using assms parse_framed [where hc = hc and rest = rest and m = m and lib = lib] by simp

section \<open>Properties of the block decoder\<close>

text \<open>
  Claim C1. For every block whose declared payload length \<open>d\<close> is a multiple of 4 and
  whose payload has exactly \<open>d\<close> bytes, the decoder returns exactly \<open>d/4\<close> samples,
  in order, and sample \<open>i\<close> is the big-endian two's-complement signed 32-bit integer
  of payload bytes \<open>4i..4i+3\<close> divided by 1000. The declared length is a natural
  number, so it is never negative.
\<close>

theorem decode_valid_block:
  assumes "isdigit hc"
    and "ds = take (digit_val hc) rest" and "payload = drop (digit_val hc) rest"
    and "ds \<noteq> []" and "list_all isdigit ds"
    and "length payload = digits_val ds"
    and "digits_val ds mod 4 = 0"
  shows "parseBinaryData lib (m # hc # rest) =
           Inr (map (\<lambda>i. real_of_int (spec_be_int32 payload i) / 1000)
                    [0..<digits_val ds div 4])"
  using assms parse_framed [where hc = hc and rest = rest and m = m and lib = lib] by simp

text \<open>The block \<^verbatim>\<open>#18\<close> with the payload of the integers 1 and -2.\<close>

theorem decode_valid_block_witness:
  "isdigit (CHR ''1'') \<and>
   parseBinaryData False (CHR ''#'' # CHR ''1'' #
       [CHR ''8'', CHR 0x00, CHR 0x00, CHR 0x00, CHR 0x01, CHR 0xFF, CHR 0xFF, CHR 0xFF, CHR 0xFE])
     = Inr [1 / 1000, - 2 / 1000]"
proof -
  let ?rest = "[CHR ''8'', CHR 0x00, CHR 0x00, CHR 0x00, CHR 0x01, CHR 0xFF, CHR 0xFF, CHR 0xFF, CHR 0xFE]"
  have h: "isdigit (CHR ''1'')" by (simp add: isdigit_def)
  have v: "digit_val (CHR ''1'') = 1" by (simp add: digit_val_def)
  have ds: "[CHR ''8''] = take (digit_val (CHR ''1'')) ?rest" by (simp add: v)
  have pl: "[CHR 0x00, CHR 0x00, CHR 0x00, CHR 0x01, CHR 0xFF, CHR 0xFF, CHR 0xFF, CHR 0xFE]
      = drop (digit_val (CHR ''1'')) ?rest" by (simp add: v)
  have dv: "digits_val [CHR ''8''] = 8" by (simp add: digits_val_def digit_val_def)
  have d: "list_all isdigit [CHR ''8'']" by (simp add: isdigit_def)
  have up: "[0..<2::nat] = [0, 1]" by (simp add: upt_rec)
  from decode_valid_block [OF h ds pl _ d, where m = "CHR ''#''" and lib = False] h
  show ?thesis
    by (simp add: dv up spec_be_int32_def)
qed

text \<open>
  Claim C4, as amended. A block whose declared payload length is not a multiple of 4, with
  a payload of exactly that many bytes, passes the length check and fails inside
  \<^verbatim>\<open>unpack\<close> with \<^verbatim>\<open>struct.error\<close>; no samples are returned. The decoder has no
  alignment check of its own, so the error is not a decode error of the decoder.
\<close>

theorem decode_misaligned_block:
  assumes "isdigit hc"
    and "ds = take (digit_val hc) rest" and "payload = drop (digit_val hc) rest"
    and "ds \<noteq> []" and "list_all isdigit ds"
    and "length payload = digits_val ds"
    and "digits_val ds mod 4 \<noteq> 0"
  shows "parseBinaryData lib (m # hc # rest) = Inl StructError"
  using assms parse_framed [where hc = hc and rest = rest and m = m and lib = lib] by simp

theorem decode_misaligned_block_witness:
  "isdigit (CHR ''1'') \<and> digits_val [CHR ''6''] mod 4 \<noteq> 0 \<and>
   parseBinaryData False (CHR ''#'' # CHR ''1'' #
      [CHR ''6'', CHR 0x00, CHR 0x00, CHR 0x03, CHR 0xE8, CHR 0xFF, CHR 0xFF]) = Inl StructError"
proof -
  let ?rest = "[CHR ''6'', CHR 0x00, CHR 0x00, CHR 0x03, CHR 0xE8, CHR 0xFF, CHR 0xFF]"
  have h: "isdigit (CHR ''1'')" by (simp add: isdigit_def)
  have v: "digit_val (CHR ''1'') = 1" by (simp add: digit_val_def)
  have ds: "[CHR ''6''] = take (digit_val (CHR ''1'')) ?rest" by (simp add: v)
  have pl: "[CHR 0x00, CHR 0x00, CHR 0x03, CHR 0xE8, CHR 0xFF, CHR 0xFF]
      = drop (digit_val (CHR ''1'')) ?rest" by (simp add: v)
  have dv: "digits_val [CHR ''6''] = 6" by (simp add: digits_val_def digit_val_def)
  have d: "list_all isdigit [CHR ''6'']" by (simp add: isdigit_def)
  have l: "length [CHR 0x00, CHR 0x00, CHR 0x03, CHR 0xE8, CHR 0xFF, CHR 0xFF] = digits_val [CHR ''6'']"
    by (simp add: dv)
  have m: "digits_val [CHR ''6''] mod 4 \<noteq> 0" by (simp add: dv)
  from decode_misaligned_block [OF h ds pl _ d l m, where m = "CHR ''#''" and lib = False] h m
  show ?thesis by simp
qed

text \<open>
  The claim as written fails: the block \<^verbatim>\<open>#11A\<close> declares one payload byte and
  carries one, and the decoder ends with \<^verbatim>\<open>struct.error\<close>.
\<close>

theorem decode_misaligned_counterexample:
  "parseBinaryData False [CHR ''#'', CHR ''1'', CHR ''1'', CHR ''A''] = Inl StructError \<and>
   parseBinaryData False [CHR ''#'', CHR ''1'', CHR ''1'', CHR ''A'']
     \<noteq> Inl (HandlerError ''Could not decode binary response.'')"
  by (simp add: parseBinaryData_Cons isdigit_def digit_val_def py_int_def strip_def isspace_def
      digits_val_def unpack_be_l_def)


text \<open>
  Claim C6, as amended. The header for a payload of 8 bytes is \<^verbatim>\<open>#18\<close>: one length
  digit, \<^verbatim>\<open>8\<close>. The block \<^verbatim>\<open>#18\<close> followed by the bytes of the big-endian integers
  1000 and -2000 decodes to the samples 1.0 and -2.0.
\<close>

theorem decode_scenario_18:
  "parseBinaryData lib [CHR ''#'', CHR ''1'', CHR ''8'',
      CHR 0x00, CHR 0x00, CHR 0x03, CHR 0xE8, CHR 0xFF, CHR 0xFF, CHR 0xF8, CHR 0x30]
   = Inr [1, - 2]"
  by (simp add: parseBinaryData_Cons isdigit_def digit_val_def py_int_def strip_def isspace_def
      digits_val_def unpack_be_l_def be_int32_def)

text \<open>
  The claim as written fails: in \<^verbatim>\<open>#28\<close> the header-length digit is 2, so the decoder
  reads \<^verbatim>\<open>8\<close> and the first payload byte (zero) as the length field, and
  \<^verbatim>\<open>int\<close> raises \<^verbatim>\<open>ValueError\<close>.
\<close>

theorem decode_scenario_28_counterexample:
  "parseBinaryData False [CHR ''#'', CHR ''2'', CHR ''8'',
      CHR 0x00, CHR 0x00, CHR 0x03, CHR 0xE8, CHR 0xFF, CHR 0xFF, CHR 0xF8, CHR 0x30]
   = Inl ValueError"
  by (simp add: parseBinaryData_Cons isdigit_def digit_val_def py_int_def strip_def isspace_def)

text \<open>
  Claim C8. For every well-framed block that declares a payload length of 0 and has an
  empty payload, the decoder succeeds with the empty sample sequence.
\<close>

theorem decode_empty_block:
  assumes "isdigit hc"
    and "length ds = digit_val hc"
    and "ds \<noteq> []" and "list_all isdigit ds"
    and "digits_val ds = 0"
  shows "parseBinaryData lib (m # hc # ds) = Inr []"
  using assms parse_framed [where hc = hc and rest = ds and m = m and lib = lib] by simp

theorem decode_empty_block_witness:
  "isdigit (CHR ''2'') \<and> digits_val [CHR ''0'', CHR ''0''] = 0 \<and>
   parseBinaryData False [CHR ''#'', CHR ''2'', CHR ''0'', CHR ''0''] = Inr []"
proof -
  have h: "isdigit (CHR ''2'')" by (simp add: isdigit_def)
  have l: "length [CHR ''0'', CHR ''0''] = digit_val (CHR ''2'')" by (simp add: digit_val_def)
  have d: "list_all isdigit [CHR ''0'', CHR ''0'']" by (simp add: isdigit_def)
  have z: "digits_val [CHR ''0'', CHR ''0''] = 0" by (simp add: digits_val_def digit_val_def)
  from decode_empty_block [OF h l _ d z, where m = "CHR ''#''" and lib = False] h z
  show ?thesis by simp
qed

text \<open>
  Claim C9, as amended. An input of fewer than two bytes fails with \<^verbatim>\<open>IndexError\<close>,
  and an input whose byte 1 is not an ASCII digit fails with \<^verbatim>\<open>ValueError\<close> raised
  by \<^verbatim>\<open>int\<close>: both are generic exceptions, not the decoder's
  \<^verbatim>\<open>HandlerError\<close>. The presence of the marker is not checked.
\<close>

theorem decode_bad_header:
  "(length data < 2 \<longrightarrow> parseBinaryData lib data = Inl IndexError) \<and>
   (2 \<le> length data \<and> \<not> isdigit (data ! 1) \<longrightarrow> parseBinaryData lib data = Inl ValueError)"
proof (intro conjI impI)
  assume "length data < 2"
  then show "parseBinaryData lib data = Inl IndexError" by (rule parseBinaryData_short)
next
  assume a: "2 \<le> length data \<and> \<not> isdigit (data ! 1)"
  then obtain m c rest where d: "data = m # c # rest"
    by (cases data; cases "tl data") auto
  with a show "parseBinaryData lib data = Inl ValueError"
    by (simp add: parseBinaryData_Cons)
qed

theorem decode_bad_header_witness:
  "length [CHR ''#''] < 2 \<and> parseBinaryData False [CHR ''#''] = Inl IndexError \<and>
   2 \<le> length [CHR ''#'', CHR ''x'', CHR ''4''] \<and>
   \<not> isdigit ([CHR ''#'', CHR ''x'', CHR ''4''] ! 1) \<and>
   parseBinaryData False [CHR ''#'', CHR ''x'', CHR ''4''] = Inl ValueError"
  using decode_bad_header [where data = "[CHR ''#'']" and lib = False]
        decode_bad_header [where data = "[CHR ''#'', CHR ''x'', CHR ''4'']" and lib = False]
  by (simp add: isdigit_def)

text \<open>
  The claim as written fails: with the header-length character \<^verbatim>\<open>x\<close> the decoder ends
  with \<^verbatim>\<open>ValueError\<close>.
\<close>

theorem decode_bad_header_counterexample:
  "parseBinaryData False [CHR ''#'', CHR ''x'', CHR ''4'', CHR 0x00, CHR 0x00, CHR 0x03, CHR 0xE8]
     = Inl ValueError \<and>
   parseBinaryData False [CHR ''#'', CHR ''x'', CHR ''4'', CHR 0x00, CHR 0x00, CHR 0x03, CHR 0xE8]
     \<noteq> Inl (HandlerError ''Could not decode binary response.'')"
  by (simp add: parseBinaryData_Cons isdigit_def)

text \<open>
  A block that has lost its marker is read one byte off and need not fail at all:
  \<^verbatim>\<open>#1800000000\<close> without its marker decodes to the empty sequence.
\<close>

theorem missing_marker_decodes:
  "parseBinaryData lib [CHR ''1'', CHR ''8'', CHR ''0'', CHR ''0'', CHR ''0'', CHR ''0'',
                    CHR ''0'', CHR ''0'', CHR ''0'', CHR ''0''] = Inr []"
  by (simp add: parseBinaryData_Cons isdigit_def digit_val_def py_int_def strip_def isspace_def
      digits_val_def unpack_be_l_def)

text \<open>
  Claim C10. The decoder never inspects byte 0: two inputs that differ only in byte 0
  give the same result, samples or error. This holds for every tail, in particular for
  inputs of length at least 2.
\<close>

theorem decode_ignores_marker:
  "parseBinaryData lib (a # bytes) = parseBinaryData lib (b # bytes)"
proof (cases bytes)
  case Nil
  then show ?thesis by (simp add: parseBinaryData_short)
next
  case (Cons c rest)
  then show ?thesis by (simp only: parseBinaryData_Cons)
qed

section \<open>Evaluating the scenarios\<close>

lemmas decode_eval = parseBinaryData_Cons isdigit_def digit_val_def py_int_def strip_def
  isspace_def digits_val_def unpack_be_l_def be_int32_def

lemma parse_five_sample_block: "parseBinaryData lib five_sample_block = Inr [1, 2, 3, - 1, 0]"
  by (simp add: five_sample_block_def decode_eval)

lemma mock_run_five_samples:
  "get_trace mock_float lib (mock_instrument ''1000000000'' ''100000000'' five_sample_block) 1 []
     = (Inr (1000, 25, [1, 2, 3, - 1, 0]),
        ['':FREQ:STAR?'', '':FREQ:SPAN?'', QUERY (str_int 1)])"
  by (simp add: get_trace_def query_def mock_instrument_def mock_float_def parse_five_sample_block QUERY_def)

lemma mock_replies:
  "mock_instrument a b c ([] @ ['':FREQ:STAR?'']) = Inr a"
  "mock_instrument a b c ([] @ ['':FREQ:STAR?'', '':FREQ:SPAN?'']) = Inr b"
  "mock_instrument a b c ([] @ ['':FREQ:STAR?'', '':FREQ:SPAN?'', QUERY t]) = Inr c"
  by (simp_all add: mock_instrument_def QUERY_def)

lemma mock_float_vals:
  "mock_float ''1000000000'' = Some 1000000000" "mock_float ''100000000'' = Some 100000000"
  by (simp_all add: mock_float_def)

lemma parse_block1:
  "parseBinaryData lib (''#14'' @ [CHR 0x00, CHR 0x00, CHR 0x03, CHR 0xE8]) = Inr [1]"
  by (simp add: decode_eval)

lemma parse_block2:
  "parseBinaryData lib (''#18'' @ [CHR 0x00, CHR 0x00, CHR 0x03, CHR 0xE8, CHR 0xFF, CHR 0xFF, CHR 0xF8, CHR 0x30])
     = Inr [1, - 2]"
  by (simp add: decode_eval)

lemma parse_block0: "parseBinaryData lib ''#10'' = Inr []"
  by (simp add: decode_eval)

section \<open>The trace fetcher, step by step\<close>

lemma get_trace_run:
  assumes "1 \<le> data" "data \<le> 3"
    and "dev (sent @ ['':FREQ:STAR?'']) = Inr r1" and "to_float r1 = Some start_hz"
    and "dev (sent @ ['':FREQ:STAR?'', '':FREQ:SPAN?'']) = Inr r2" and "to_float r2 = Some span_hz"
    and "dev (sent @ ['':FREQ:STAR?'', '':FREQ:SPAN?'', QUERY (str_int data)]) = Inr resp"
    and "parseBinaryData lib resp = Inr vals"
  shows "get_trace to_float lib dev data sent =
     (if length vals = 1
      then (Inl ZeroDivisionError, sent @ ['':FREQ:STAR?'', '':FREQ:SPAN?'', QUERY (str_int data)])
      else (Inr (start_hz / 1000000, span_hz / 1000000 / (real (length vals) - 1), vals),
            sent @ ['':FREQ:STAR?'', '':FREQ:SPAN?'', QUERY (str_int data)]))"
  using assms by (auto simp add: get_trace_def query_def Let_def)

lemma get_trace_Inr:
  assumes "get_trace to_float lib dev data sent = (Inr (f0, step, vals), sent')"
  shows "\<exists>r1 r2 resp start_hz span_hz.
     1 \<le> data \<and> data \<le> 3 \<and>
     dev (sent @ ['':FREQ:STAR?'']) = Inr r1 \<and> to_float r1 = Some start_hz \<and>
     dev (sent @ ['':FREQ:STAR?'', '':FREQ:SPAN?'']) = Inr r2 \<and> to_float r2 = Some span_hz \<and>
     dev (sent @ ['':FREQ:STAR?'', '':FREQ:SPAN?'', QUERY (str_int data)]) = Inr resp \<and>
     parseBinaryData lib resp = Inr vals \<and> length vals \<noteq> 1 \<and>
     f0 = start_hz / 1000000 \<and> step = span_hz / 1000000 / (real (length vals) - 1) \<and>
     sent' = sent @ ['':FREQ:STAR?'', '':FREQ:SPAN?'', QUERY (str_int data)]"
  using assms
  by (auto simp add: get_trace_def query_def Let_def split: if_splits sum.splits option.splits)

section \<open>Properties of the trace fetcher\<close>

text \<open>
  Claim C7. For every trace index outside 1..3 (0 and 4 among them), \<^verbatim>\<open>get_trace\<close>
  fails with \<^verbatim>\<open>Exception('data out of range')\<close>, the error the specification
  names InvalidArgument, and the list of commands sent is unchanged: no query reaches
  the instrument, whatever the instrument is.
\<close>

theorem get_trace_rejects_index:
  assumes "data < 1 \<or> 3 < data"
  shows "get_trace to_float lib dev data sent = (Inl (PyException ''data out of range''), sent)"
  using assms by (simp add: get_trace_def)

theorem get_trace_rejects_index_witness:
  "((0::int) < 1 \<or> 3 < (0::int)) \<and> ((4::int) < 1 \<or> 3 < (4::int)) \<and>
   get_trace mock_float False (mock_instrument ''1000000000'' ''100000000'' ''#10'') 0 []
     = (Inl (PyException ''data out of range''), []) \<and>
   get_trace mock_float False (mock_instrument ''1000000000'' ''100000000'' ''#10'') 4 []
     = (Inl (PyException ''data out of range''), [])"
  using get_trace_rejects_index [where data = 0 and to_float = mock_float and lib = False
          and dev = "mock_instrument ''1000000000'' ''100000000'' ''#10''" and sent = "[]"]
        get_trace_rejects_index [where data = 4 and to_float = mock_float and lib = False
          and dev = "mock_instrument ''1000000000'' ''100000000'' ''#10''" and sent = "[]"]
  by simp

text \<open>
  Claim C2, as amended. Every successful call returns the start frequency and the step in
  MHz, as the setting declares its result: the first component is the queried start
  frequency divided by \<open>10^6\<close> and the second is the queried span divided by \<open>10^6\<close>
  and then by \<open>n - 1\<close>, for \<open>n\<close> decoded samples. For a start of 1000000000 Hz, a span
  of 100000000 Hz and five samples the result is 1000.0 and 25.0.
\<close>

theorem get_trace_result_in_MHz:
  assumes "get_trace to_float lib dev data sent = (Inr (f0, step, vals), sent')"
  shows "\<exists>r1 r2 start_hz span_hz.
     dev (sent @ ['':FREQ:STAR?'']) = Inr r1 \<and> to_float r1 = Some start_hz \<and>
     dev (sent @ ['':FREQ:STAR?'', '':FREQ:SPAN?'']) = Inr r2 \<and> to_float r2 = Some span_hz \<and>
     f0 = start_hz / 1000000 \<and>
     step = span_hz / 1000000 / (real (length vals) - 1)"
  using get_trace_Inr [OF assms] by blast

theorem get_trace_result_in_MHz_witness:
  "get_trace mock_float False (mock_instrument ''1000000000'' ''100000000'' five_sample_block) 1 []
     = (Inr (1000, 25, [1, 2, 3, - 1, 0]),
        ['':FREQ:STAR?'', '':FREQ:SPAN?'', QUERY (str_int 1)]) \<and>
   (\<exists>start_hz span_hz.
      mock_float ''1000000000'' = Some start_hz \<and> mock_float ''100000000'' = Some span_hz \<and>
      (1000 :: real) = start_hz / 1000000 \<and>
      (25 :: real) = span_hz / 1000000 / (real (length [1, 2, 3, - 1, 0 :: real]) - 1))"
proof -
  note run = mock_run_five_samples
  from get_trace_result_in_MHz [OF run]
  obtain r1 r2 start_hz span_hz where
    a: "mock_instrument ''1000000000'' ''100000000'' five_sample_block ([] @ ['':FREQ:STAR?'']) = Inr r1"
    and b: "mock_float r1 = Some start_hz"
    and c: "mock_instrument ''1000000000'' ''100000000'' five_sample_block ([] @ ['':FREQ:STAR?'', '':FREQ:SPAN?'']) = Inr r2"
    and d: "mock_float r2 = Some span_hz"
    and e: "(1000 :: real) = start_hz / 1000000"
    and f: "(25 :: real) = span_hz / 1000000 / (real (length [1, 2, 3, - 1, 0 :: real]) - 1)"
    by blast
  from a have "r1 = ''1000000000''" by (simp add: mock_instrument_def)
  moreover from c have "r2 = ''100000000''" by (simp add: mock_instrument_def)
  ultimately show ?thesis using run b d e f by blast
qed

text \<open>
  The claim as written fails: in that scenario the returned numbers are 1000 and 25, not
  1000000000 and 25000000.
\<close>

theorem get_trace_hz_counterexample:
  "get_trace mock_float False (mock_instrument ''1000000000'' ''100000000'' five_sample_block) 1 []
     = (Inr (1000, 25, [1, 2, 3, - 1, 0]),
        ['':FREQ:STAR?'', '':FREQ:SPAN?'', QUERY (str_int 1)]) \<and>
   get_trace mock_float False (mock_instrument ''1000000000'' ''100000000'' five_sample_block) 1 []
     \<noteq> (Inr (1000000000, 25000000, [1, 2, 3, - 1, 0]),
        ['':FREQ:STAR?'', '':FREQ:SPAN?'', QUERY (str_int 1)])"
  by (simp add: mock_run_five_samples)

text \<open>
  Claim C3, as amended. When the three queries succeed and the block decodes to \<open>n\<close>
  samples, a call with \<open>n = 1\<close> fails with \<^verbatim>\<open>ZeroDivisionError\<close>, and a call with
  any other \<open>n\<close> returns the step \<open>span / 10^6 / (n - 1)\<close> in MHz. For the empty
  trace, \<open>n = 0\<close>, the divisor is \<open>-1\<close> and the call returns.
\<close>

theorem get_trace_step:
  assumes "1 \<le> data" and "data \<le> 3"
    and "dev (sent @ ['':FREQ:STAR?'']) = Inr r1" and "to_float r1 = Some start_hz"
    and "dev (sent @ ['':FREQ:STAR?'', '':FREQ:SPAN?'']) = Inr r2" and "to_float r2 = Some span_hz"
    and "dev (sent @ ['':FREQ:STAR?'', '':FREQ:SPAN?'', QUERY (str_int data)]) = Inr resp"
    and "parseBinaryData lib resp = Inr vals"
  shows "get_trace to_float lib dev data sent =
     (if length vals = 1
      then (Inl ZeroDivisionError, sent @ ['':FREQ:STAR?'', '':FREQ:SPAN?'', QUERY (str_int data)])
      else (Inr (start_hz / 1000000, span_hz / 1000000 / (real (length vals) - 1), vals),
            sent @ ['':FREQ:STAR?'', '':FREQ:SPAN?'', QUERY (str_int data)]))"
  using assms by (rule get_trace_run)

theorem get_trace_step_witness:
  "get_trace mock_float False (mock_instrument ''1000000000'' ''100000000''
      (''#14'' @ [CHR 0x00, CHR 0x00, CHR 0x03, CHR 0xE8])) 2 []
     = (Inl ZeroDivisionError, ['':FREQ:STAR?'', '':FREQ:SPAN?'', QUERY (str_int 2)]) \<and>
   get_trace mock_float False (mock_instrument ''1000000000'' ''100000000''
      (''#18'' @ [CHR 0x00, CHR 0x00, CHR 0x03, CHR 0xE8, CHR 0xFF, CHR 0xFF, CHR 0xF8, CHR 0x30])) 2 []
     = (Inr (1000, 100, [1, - 2]), ['':FREQ:STAR?'', '':FREQ:SPAN?'', QUERY (str_int 2)])"
proof -
  let ?b1 = "''#14'' @ [CHR 0x00, CHR 0x00, CHR 0x03, CHR 0xE8]"
  let ?b2 = "''#18'' @ [CHR 0x00, CHR 0x00, CHR 0x03, CHR 0xE8, CHR 0xFF, CHR 0xFF, CHR 0xF8, CHR 0x30]"
  have one: "get_trace mock_float False (mock_instrument ''1000000000'' ''100000000'' ?b1) 2 []
     = (Inl ZeroDivisionError, ['':FREQ:STAR?'', '':FREQ:SPAN?'', QUERY (str_int 2)])"
    using get_trace_step [where data = 2 and sent = "[]" and to_float = mock_float and lib = False
        and dev = "mock_instrument ''1000000000'' ''100000000'' ?b1"
        and ?r1.0 = "''1000000000''" and start_hz = 1000000000
        and ?r2.0 = "''100000000''" and span_hz = 100000000
        and resp = ?b1 and vals = "[1]"]
    by (simp add: mock_replies mock_float_vals parse_block1 del: append.simps)
  have two: "get_trace mock_float False (mock_instrument ''1000000000'' ''100000000'' ?b2) 2 []
     = (Inr (1000, 100, [1, - 2]), ['':FREQ:STAR?'', '':FREQ:SPAN?'', QUERY (str_int 2)])"
    using get_trace_step [where data = 2 and sent = "[]" and to_float = mock_float and lib = False
        and dev = "mock_instrument ''1000000000'' ''100000000'' ?b2"
        and ?r1.0 = "''1000000000''" and start_hz = 1000000000
        and ?r2.0 = "''100000000''" and span_hz = 100000000
        and resp = ?b2 and vals = "[1, - 2]"]
    by (simp add: mock_replies mock_float_vals parse_block2 del: append.simps)
  from one two show ?thesis by (rule conjI)
qed

text \<open>
  The claim as written fails for the empty trace: with the block \<^verbatim>\<open>#10\<close> the call
  returns the step \<open>-100\<close> and no error.
\<close>

theorem get_trace_empty_trace_counterexample:
  "get_trace mock_float False (mock_instrument ''1000000000'' ''100000000'' ''#10'') 1 []
     = (Inr (1000, - 100, []), ['':FREQ:STAR?'', '':FREQ:SPAN?'', QUERY (str_int 1)])"
  by (simp add: get_trace_def query_def mock_instrument_def mock_float_def parse_block0 QUERY_def)

end
